theory Spec2Isabelle
  imports Main "HOL-Library.AList"
begin

section \<open>webmcp-auto: a shallow embedding of \<^verbatim>\<open>src/index.js\<close>\<close>

text \<open>
  JavaScript strings are modelled as HOL strings. A \<^typ>\<open>char\<close> stands for one code unit in
  the range U+0000 .. U+00FF, read through \<^const>\<open>of_char\<close>; on that range the character
  classes and the case mapping below are the ones ECMAScript prescribes.
\<close>

subsection \<open>String primitives of the host language\<close>

definition code :: "char \<Rightarrow> nat" where
  "code c = of_char c"

text \<open>\<^verbatim>\<open>String.prototype.toLowerCase\<close>: A-Z and the Latin-1 capitals (U+00C0 .. U+00DE without
  the multiplication sign U+00D7) move up by 32, every other code unit stays.\<close>

definition lowerChar :: "char \<Rightarrow> char" where
  "lowerChar c =
     (if (65 \<le> code c \<and> code c \<le> 90) \<or> (192 \<le> code c \<and> code c \<le> 222 \<and> code c \<noteq> 215)
      then char_of (code c + 32) else c)"

definition toLowerCase :: "string \<Rightarrow> string" where
  "toLowerCase s = map lowerChar s"

text \<open>The regular-expression class \<^verbatim>\<open>\s\<close> (also the characters removed by \<^verbatim>\<open>trim\<close>):
  TAB, LF, VT, FF, CR, space and the no-break space U+00A0.\<close>

definition isSpace :: "char \<Rightarrow> bool" where
  "isSpace c = ((9 \<le> code c \<and> code c \<le> 13) \<or> code c = 32 \<or> code c = 160)"

definition isLowerAlnum :: "char \<Rightarrow> bool" where
  "isLowerAlnum c = ((97 \<le> code c \<and> code c \<le> 122) \<or> (48 \<le> code c \<and> code c \<le> 57))"

text \<open>The class \<^verbatim>\<open>[a-z0-9\s_-]\<close> kept by the first replacement of \<^verbatim>\<open>slugify\<close>.\<close>

definition isSlugChar :: "char \<Rightarrow> bool" where
  "isSlugChar c = (isLowerAlnum c \<or> isSpace c \<or> c = CHR ''_'' \<or> c = CHR ''-'')"

text \<open>The class \<^verbatim>\<open>[\s_-]\<close> whose runs the second replacement collapses.\<close>

definition isSep :: "char \<Rightarrow> bool" where
  "isSep c = (isSpace c \<or> c = CHR ''_'' \<or> c = CHR ''-'')"

definition trim :: "string \<Rightarrow> string" where
  "trim s = rev (dropWhile isSpace (rev (dropWhile isSpace s)))"

text \<open>\<^verbatim>\<open>s.slice(0, n)\<close> for a non-negative \<^verbatim>\<open>n\<close>.\<close>

definition slice0 :: "nat \<Rightarrow> string \<Rightarrow> string" where
  "slice0 n s = take n s"

text \<open>\<^verbatim>\<open>s.startsWith(p)\<close>.\<close>

definition startsWith :: "string \<Rightarrow> string \<Rightarrow> bool" where
  "startsWith s p = (take (length p) s = p)"

text \<open>\<^verbatim>\<open>parts.join(sep)\<close>.\<close>

fun join :: "string \<Rightarrow> string list \<Rightarrow> string" where
  "join sep [] = []"
| "join sep [p] = p"
| "join sep (p # q # ps) = p @ sep @ join sep (q # ps)"

text \<open>Decimal rendering of a non-negative integer inside a template string.\<close>

fun showNat :: "nat \<Rightarrow> string" where
  "showNat n = (if n < 10 then [char_of (48 + n)] else showNat (n div 10) @ [char_of (48 + n mod 10)])"

text \<open>Truthiness of a string and of the result of \<^verbatim>\<open>getAttribute\<close> (\<^verbatim>\<open>null\<close> when the attribute
  is absent): absent and empty are both falsy.\<close>

definition truthy :: "string \<Rightarrow> bool" where
  "truthy s = (s \<noteq> [])"

definition truthyAttr :: "string option \<Rightarrow> bool" where
  "truthyAttr a = (case a of None \<Rightarrow> False | Some s \<Rightarrow> truthy s)"

text \<open>\<^verbatim>\<open>s.split("/").pop()\<close>: the part of \<^verbatim>\<open>s\<close> after its last slash.\<close>

definition lastSegment :: "string \<Rightarrow> string" where
  "lastSegment s = rev (takeWhile (\<lambda>c. c \<noteq> CHR ''/'') (rev s))"

subsection \<open>\<^verbatim>\<open>slugify\<close> (index.js, lines 45-52)\<close>

text \<open>\<^verbatim>\<open>.replace(/[^a-z0-9\s_-]/g, "")\<close>\<close>

definition stripOther :: "string \<Rightarrow> string" where
  "stripOther s = filter isSlugChar s"

text \<open>\<^verbatim>\<open>.replace(/[\s_-]+/g, "_")\<close>: every maximal run of separators becomes one underscore.\<close>

function collapseRuns :: "string \<Rightarrow> string" where
  "collapseRuns [] = []"
| "collapseRuns (c # cs) =
     (if isSep c then CHR ''_'' # collapseRuns (dropWhile isSep cs)
      else c # collapseRuns cs)"
  by pat_completeness auto
termination
  by (relation "measure length") (auto simp: length_dropWhile_le less_Suc_eq_le)

text \<open>\<^verbatim>\<open>.replace(/^_|_$/g, "")\<close>: the global scan removes an underscore at index 0, then, among
  the remaining characters, an underscore at the last index.\<close>

definition dropTrailing :: "string \<Rightarrow> string" where
  "dropTrailing s = (if s \<noteq> [] \<and> last s = CHR ''_'' then butlast s else s)"

definition trimEnds :: "string \<Rightarrow> string" where
  "trimEnds s = (case s of [] \<Rightarrow> []
                 | c # cs \<Rightarrow> if c = CHR ''_'' then dropTrailing cs else dropTrailing s)"

definition slugify :: "string \<Rightarrow> string" where
  "slugify text = slice0 40 (trimEnds (collapseRuns (stripOther (toLowerCase text))))"

subsection \<open>The host element capability surface\<close>

text \<open>
  Values an automation caller may pass in a handler's input mapping. Integers stand in for
  the finite JavaScript numbers; \<open>JObject\<close> is any object, array or function.
\<close>

datatype jsval = JUndefined | JNull | JBool bool | JNum int | JNaN | JStr string | JObject

text \<open>\<^verbatim>\<open>Boolean(value)\<close>\<close>

fun toBoolean :: "jsval \<Rightarrow> bool" where
  "toBoolean JUndefined = False"
| "toBoolean JNull = False"
| "toBoolean (JBool b) = b"
| "toBoolean (JNum n) = (n \<noteq> 0)"
| "toBoolean JNaN = False"
| "toBoolean (JStr s) = truthy s"
| "toBoolean JObject = True"

text \<open>
  A form control (\<^verbatim>\<open>input\<close>, \<^verbatim>\<open>select\<close>, \<^verbatim>\<open>textarea\<close>) with the properties the code reads and
  writes. A property the element kind does not have (\<^verbatim>\<open>min\<close> of a \<^verbatim>\<open>textarea\<close>, say) reads as
  \<^verbatim>\<open>undefined\<close>, which every use in the code treats like the empty string. \<open>c_value\<close> records
  the value last handed to the \<^verbatim>\<open>value\<close> setter.
\<close>

record control =
  c_tagName :: string
  c_name :: string
  c_id :: string
  c_type :: string
  c_min :: string
  c_max :: string
  c_placeholder :: string
  c_pattern :: string
  c_required :: bool
  c_options :: "string list"
  c_checked :: bool
  c_value :: jsval

text \<open>
  An element as one scan pass or one handler call sees it. \<open>el_ref\<close> is the identity of the
  live element; \<open>el_attrs\<close> answers \<^verbatim>\<open>getAttribute\<close>; \<open>el_controls\<close> is
  \<^verbatim>\<open>querySelectorAll("input, select, textarea")\<close> in document order; \<open>el_labels\<close> answers
  \<^verbatim>\<open>querySelector('label[for="ID"]')\<close> with the text of the label found; \<open>el_matches\<close> and
  \<open>el_closest\<close> list the selectors for which \<^verbatim>\<open>matches\<close> holds and \<^verbatim>\<open>closest\<close> finds a node.
  Selectors, also the one built from a control's id, are taken to be well formed, so that
  no query throws.
\<close>

record element =
  el_ref :: nat
  el_tagName :: string
  el_id :: string
  el_name :: string
  el_type :: string
  el_attrs :: "(string \<times> string) list"
  el_textContent :: string
  el_controls :: "control list"
  el_labels :: "(string \<times> string) list"
  el_matches :: "string list"
  el_closest :: "string list"

definition getAttribute :: "element \<Rightarrow> string \<Rightarrow> string option" where
  "getAttribute e a = map_of (el_attrs e) a"

text \<open>The static node lists one scan pass queries from the document; \<open>d_query\<close> answers
  \<^verbatim>\<open>querySelectorAll\<close> for the caller-supplied selectors.\<close>

record document =
  d_forms :: "element list"
  d_buttons :: "element list"
  d_navLinks :: "element list"
  d_query :: "(string \<times> element list) list"

definition querySelectorAll :: "document \<Rightarrow> string \<Rightarrow> element list" where
  "querySelectorAll d sel = (case map_of (d_query d) sel of None \<Rightarrow> [] | Some es \<Rightarrow> es)"

subsection \<open>Configuration (index.js, lines 26-41)\<close>

text \<open>\<open>cfg_onToolRegistered\<close> says whether a callback is configured; its calls are recorded in
  the state. \<open>cfg_maxTools\<close> is an integer, of either sign.\<close>

record config =
  cfg_exclude :: "string list"
  cfg_include :: "string list"
  cfg_prefix :: string
  cfg_onToolRegistered :: bool
  cfg_watch :: bool
  cfg_maxTools :: int
  cfg_debug :: bool

definition DEFAULT_CONFIG :: config where
  "DEFAULT_CONFIG = \<lparr>cfg_exclude = [], cfg_include = [], cfg_prefix = [],
     cfg_onToolRegistered = False, cfg_watch = True, cfg_maxTools = 50, cfg_debug = True\<rparr>"

subsection \<open>\<^verbatim>\<open>generateToolName\<close> (index.js, lines 54-92)\<close>

text \<open>
  The result \<open>None\<close> is the \<^verbatim>\<open>null\<close> the code returns, the skip sentinel. \<open>rnd\<close> is the string
  \<^verbatim>\<open>Math.random().toString(36).slice(2, 6)\<close> evaluates to when the fallback is reached.
\<close>

definition generateToolName :: "element \<Rightarrow> string \<Rightarrow> string \<Rightarrow> string \<Rightarrow> string option" where
  "generateToolName element pre context rnd =
     (let parts0 = (if truthy pre then [pre] else []) in
      if truthyAttr (getAttribute element ''toolname'') then None
      else
        let ident = el_id element;
            nameAttr = getAttribute element ''name'';
            ariaLabel = getAttribute element ''aria-label'';
            action = getAttribute element ''action'';
            textContent = slice0 30 (trim (el_textContent element));
            parts =
              (if context = ''form'' then
                 (if truthy ident then parts0 @ [slugify ident]
                  else if truthyAttr nameAttr then parts0 @ [slugify (the nameAttr)]
                  else if truthyAttr action then parts0 @ [''submit_'' @ slugify (lastSegment (the action))]
                  else parts0 @ [''form_'' @ rnd])
               else if context = ''button'' then
                 (if truthyAttr ariaLabel then parts0 @ [slugify (the ariaLabel)]
                  else if truthy textContent then parts0 @ [slugify textContent]
                  else if truthy ident then parts0 @ [slugify ident]
                  else parts0 @ [''action_'' @ rnd])
               else if context = ''link'' then
                 (if truthyAttr ariaLabel then parts0 @ [''navigate_'' @ slugify (the ariaLabel)]
                  else if truthy textContent then parts0 @ [''navigate_'' @ slugify textContent]
                  else parts0 @ [''navigate_'' @ rnd])
               else if context = ''input'' then
                 (if truthyAttr nameAttr then parts0 @ [''set_'' @ slugify (the nameAttr)]
                  else if truthy ident then parts0 @ [''set_'' @ slugify ident]
                  else parts0 @ [''set_field_'' @ rnd])
               else parts0);
            toolName = join ''_'' parts
        in if truthy toolName then Some toolName else None)"

subsection \<open>\<^verbatim>\<open>generateDescription\<close> (index.js, lines 96-140)\<close>

text \<open>\<^verbatim>\<open>i.name || i.id || i.placeholder\<close>\<close>

definition fieldLabel :: "control \<Rightarrow> string" where
  "fieldLabel i = (if truthy (c_name i) then c_name i
                   else if truthy (c_id i) then c_id i else c_placeholder i)"

definition generateDescription :: "element \<Rightarrow> string \<Rightarrow> string" where
  "generateDescription element context =
     (let ariaLabel = getAttribute element ''aria-label'';
          title = getAttribute element ''title'';
          placeholder = getAttribute element ''placeholder'';
          txt = slice0 50 (trim (el_textContent element))
      in
      if context = ''form'' then
        (let fieldNames = take 5 (filter truthy (map fieldLabel (el_controls element)));
             desc = (if truthyAttr ariaLabel then ''Submit: '' @ the ariaLabel
                     else if truthyAttr title then ''Submit: '' @ the title
                     else ''Submit a form'')
         in if length fieldNames > 0 then desc @ '' (fields: '' @ join '', '' fieldNames @ '')''
            else desc)
      else if context = ''button'' then
        (if truthyAttr ariaLabel then ''Click action: '' @ the ariaLabel
         else if truthyAttr title then ''Click action: '' @ the title
         else if truthy txt then ''Click: '' @ txt
         else ''Trigger a button action'')
      else if context = ''link'' then
        (let href = (if truthyAttr (getAttribute element ''href'')
                     then the (getAttribute element ''href'') else [])
         in if truthyAttr ariaLabel then ''Navigate to: '' @ the ariaLabel
            else if truthy txt then ''Navigate to: '' @ txt
            else ''Navigate to '' @ href)
      else if context = ''input'' then
        (let ty = (if truthy (el_type element) then el_type element else ''text'');
             nm = (if truthy (el_name element) then el_name element
                   else if truthy (el_id element) then el_id element else [])
         in if truthyAttr placeholder
            then ''Set '' @ (if truthy nm then nm else ''field'') @ '': '' @ the placeholder
            else ''Set '' @ ty @ '' field: '' @ nm)
      else ''Interact with page element'')"

subsection \<open>\<^verbatim>\<open>scanForm\<close> (index.js, lines 144-221)\<close>

text \<open>
  A schema property; an absent key is \<open>None\<close>. The type \<open>'n\<close> is the host's number type and
  \<open>pf\<close> below its \<^verbatim>\<open>parseFloat\<close>. The object \<^verbatim>\<open>properties\<close> is the association list of its own
  keys in insertion order, beside the prototype a store under the key \<^verbatim>\<open>__proto__\<close> has given
  it (\<open>None\<close>: still the one of the literal \<^verbatim>\<open>{}\<close>). JavaScript enumerates integer-like keys
  before the others; nothing below depends on the order of the keys of \<open>properties\<close>.
\<close>

record 'n property =
  p_type :: string
  p_description :: "string option"
  p_enum :: "string list option"
  p_pattern :: "string option"
  p_format :: "string option"
  p_minimum :: "'n option"
  p_maximum :: "'n option"

record 'n schema =
  s_type :: string
  s_properties :: "(string \<times> 'n property) list"
  s_propertiesProto :: "'n property option"
  s_required :: "string list option"

text \<open>
  \<^verbatim>\<open>obj[k] = v\<close> on an object that began as the literal \<^verbatim>\<open>{}\<close>, for an object \<open>v\<close>: the key
  \<^verbatim>\<open>__proto__\<close> reaches the setter inherited from \<^verbatim>\<open>Object.prototype\<close>, which replaces the
  prototype and creates no own key; every other key is stored as an own key.
\<close>

definition objectSet ::
  "(string \<times> 'a) list \<times> 'a option \<Rightarrow> string \<Rightarrow> 'a \<Rightarrow> (string \<times> 'a) list \<times> 'a option" where
  "objectSet obj k v =
     (if k = ''__proto__'' then (fst obj, Some v) else (AList.update k v (fst obj), snd obj))"

text \<open>\<^verbatim>\<open>input.name || input.id\<close>\<close>

definition fieldName :: "control \<Rightarrow> string" where
  "fieldName i = (if truthy (c_name i) then c_name i else c_id i)"

text \<open>The \<^verbatim>\<open>switch (input.type)\<close> on the initial \<^verbatim>\<open>{ type: "string" }\<close>.\<close>

definition typeProp :: "(string \<Rightarrow> 'n) \<Rightarrow> control \<Rightarrow> 'n property" where
  "typeProp pf i =
     (let p0 = \<lparr>p_type = ''string'', p_description = None, p_enum = None, p_pattern = None,
                p_format = None, p_minimum = None, p_maximum = None\<rparr>
      in
      if c_type i = ''number'' \<or> c_type i = ''range'' then
        (let p1 = p0\<lparr>p_type := ''number''\<rparr>;
             p2 = (if truthy (c_min i) then p1\<lparr>p_minimum := Some (pf (c_min i))\<rparr> else p1)
         in if truthy (c_max i) then p2\<lparr>p_maximum := Some (pf (c_max i))\<rparr> else p2)
      else if c_type i = ''checkbox'' then p0\<lparr>p_type := ''boolean''\<rparr>
      else if c_type i = ''email'' then p0\<lparr>p_type := ''string'', p_format := Some ''email''\<rparr>
      else if c_type i = ''url'' then p0\<lparr>p_type := ''string'', p_format := Some ''uri''\<rparr>
      else if c_type i = ''date'' then p0\<lparr>p_type := ''string'', p_format := Some ''date''\<rparr>
      else if c_type i = ''tel'' then p0\<lparr>p_type := ''string'', p_format := Some ''phone''\<rparr>
      else p0\<lparr>p_type := ''string''\<rparr>)"

text \<open>The rest of the loop body up to the store into \<^verbatim>\<open>properties\<close>: description, enum, pattern.\<close>

definition controlProp :: "(string \<Rightarrow> 'n) \<Rightarrow> element \<Rightarrow> control \<Rightarrow> 'n property" where
  "controlProp pf form i =
     (let p1 = typeProp pf i;
          p2 = (case map_of (el_labels form) (c_id i) of
                  Some labelText \<Rightarrow> p1\<lparr>p_description := Some (trim labelText)\<rparr>
                | None \<Rightarrow> if truthy (c_placeholder i)
                          then p1\<lparr>p_description := Some (c_placeholder i)\<rparr> else p1);
          p3 = (if c_tagName i = ''SELECT'' then
                  (let options = filter truthy (c_options i)
                   in if length options > 0 \<and> length options \<le> 20
                      then p2\<lparr>p_enum := Some options\<rparr> else p2)
                else p2)
      in if truthy (c_pattern i) then p3\<lparr>p_pattern := Some (c_pattern i)\<rparr> else p3)"

text \<open>One iteration of \<^verbatim>\<open>for (const input of inputs)\<close> on the pair (properties, required).\<close>

definition scanControl ::
  "(string \<Rightarrow> 'n) \<Rightarrow> element
     \<Rightarrow> ((string \<times> 'n property) list \<times> 'n property option) \<times> string list \<Rightarrow> control
     \<Rightarrow> ((string \<times> 'n property) list \<times> 'n property option) \<times> string list" where
  "scanControl pf form acc i =
     (if \<not> truthy (fieldName i) then acc
      else if c_type i = ''hidden'' \<or> c_type i = ''submit'' then acc
      else (objectSet (fst acc) (fieldName i) (controlProp pf form i),
            if c_required i then snd acc @ [fieldName i] else snd acc))"

definition scanForm :: "(string \<Rightarrow> 'n) \<Rightarrow> element \<Rightarrow> 'n schema" where
  "scanForm pf form =
     (let acc = foldl (scanControl pf form) (([], None), []) (el_controls form)
      in \<lparr>s_type = ''object'', s_properties = fst (fst acc), s_propertiesProto = snd (fst acc),
          s_required = (if length (snd acc) > 0 then Some (snd acc) else None)\<rparr>)"

subsection \<open>Handlers (index.js, lines 225-290)\<close>

text \<open>
  What a handler does to the page: events dispatched on a control of the form (by its index in
  the node list) or on the captured element itself, and calls of \<^verbatim>\<open>click()\<close> on the element.
  The arguments of \<open>DispatchEvent\<close> are target, event type, \<^verbatim>\<open>bubbles\<close> and \<^verbatim>\<open>cancelable\<close>.
\<close>

datatype target = OnControl nat | OnElement

datatype effect = DispatchEvent target string bool bool | Click

record result =
  r_success :: bool
  r_message :: string
  r_fields :: "string list option"
  r_url :: "string option"
  r_text :: "string option"

datatype jserror = TypeError

text \<open>
  The input mapping. \<open>o_own\<close> lists its own enumerable properties in the order of
  \<^verbatim>\<open>Object.keys\<close>; \<open>o_other\<close> lists the further properties the operator \<^verbatim>\<open>in\<close> and a property
  read find: own properties that are not enumerable, then those inherited along the
  prototype chain.
\<close>

record jsobject =
  o_own :: "(string \<times> jsval) list"
  o_other :: "(string \<times> jsval) list"

text \<open>\<^verbatim>\<open>Object.keys(input)\<close>, \<^verbatim>\<open>k in input\<close> and \<^verbatim>\<open>input[k]\<close>.\<close>

definition objectKeys :: "jsobject \<Rightarrow> string list" where
  "objectKeys input = map fst (o_own input)"

definition hasProperty :: "jsobject \<Rightarrow> string \<Rightarrow> bool" where
  "hasProperty input k = (map_of (o_own input) k \<noteq> None \<or> map_of (o_other input) k \<noteq> None)"

definition getProperty :: "jsobject \<Rightarrow> string \<Rightarrow> jsval" where
  "getProperty input k =
     (case map_of (o_own input) k of
        Some v \<Rightarrow> v
      | None \<Rightarrow> (case map_of (o_other input) k of Some v \<Rightarrow> v | None \<Rightarrow> JUndefined))"

text \<open>The string-keyed properties every object inherits from \<^verbatim>\<open>Object.prototype\<close>, and the
  object an object literal or \<^verbatim>\<open>JSON.parse\<close> creates from a list of entries.\<close>

definition objectPrototype :: "(string \<times> jsval) list" where
  "objectPrototype =
     map (\<lambda>k. (k, JObject))
       [''constructor'', ''__defineGetter__'', ''__defineSetter__'', ''hasOwnProperty'',
        ''__lookupGetter__'', ''__lookupSetter__'', ''isPrototypeOf'', ''propertyIsEnumerable'',
        ''toString'', ''valueOf'', ''__proto__'', ''toLocaleString'']"

definition plainObject :: "(string \<times> jsval) list \<Rightarrow> jsobject" where
  "plainObject entries = \<lparr>o_own = entries, o_other = objectPrototype\<rparr>"

text \<open>The body of \<^verbatim>\<open>for (const inputEl of inputs)\<close> for the control at index \<open>k\<close>.\<close>

definition fillControl :: "jsobject \<Rightarrow> nat \<Rightarrow> control \<Rightarrow> control \<times> effect list" where
  "fillControl input k inputEl =
     (if \<not> truthy (fieldName inputEl) \<or> \<not> hasProperty input (fieldName inputEl)
      then (inputEl, [])
      else
        (let v = getProperty input (fieldName inputEl) in
         ((if c_type inputEl = ''checkbox'' then inputEl\<lparr>c_checked := toBoolean v\<rparr>
           else if c_tagName inputEl = ''SELECT'' then inputEl\<lparr>c_value := v\<rparr>
           else inputEl\<lparr>c_value := v\<rparr>),
          [DispatchEvent (OnControl k) ''input'' True False,
           DispatchEvent (OnControl k) ''change'' True False])))"

fun fillFields :: "jsobject \<Rightarrow> nat \<Rightarrow> control list \<Rightarrow> control list \<times> effect list" where
  "fillFields input k [] = ([], [])"
| "fillFields input k (inputEl # rest) =
     (let (c', evs) = fillControl input k inputEl;
          (rest', evs') = fillFields input (Suc k) rest
      in (c' # rest', evs @ evs'))"

text \<open>The handler returns the form with its controls as written, the effects in order, and
  the result object.\<close>

definition createFormHandler :: "element \<Rightarrow> jsobject \<Rightarrow> element \<times> effect list \<times> result" where
  "createFormHandler form input =
     (let (inputs', evs) = fillFields input 0 (el_controls form)
      in (form\<lparr>el_controls := inputs'\<rparr>,
          evs @ [DispatchEvent OnElement ''submit'' True True],
          \<lparr>r_success = True,
           r_message = ''Form submitted with '' @ showNat (length (objectKeys input)) @ '' fields'',
           r_fields = Some (objectKeys input), r_url = None, r_text = None\<rparr>))"

definition createButtonHandler :: "element \<Rightarrow> effect list \<times> result" where
  "createButtonHandler button =
     ([Click],
      \<lparr>r_success = True,
       r_message = ''Clicked: '' @
         (let t = slice0 50 (trim (el_textContent button)) in if truthy t then t else ''button''),
       r_fields = None, r_url = None, r_text = None\<rparr>)"

text \<open>
  \<open>resolveURL href base\<close> is \<^verbatim>\<open>new URL(href, base).toString()\<close>, \<open>None\<close> where the constructor
  throws; \<open>location\<close> is \<^verbatim>\<open>window.location.href\<close>. A throw rejects the handler's promise.
\<close>

definition createLinkHandler ::
  "(string \<Rightarrow> string \<Rightarrow> string option) \<Rightarrow> string \<Rightarrow> element \<Rightarrow> effect list \<times> (jserror + result)" where
  "createLinkHandler resolveURL location link =
     (let href = getAttribute link ''href'' in
      if truthyAttr href \<and> \<not> startsWith (the href) ''javascript:'' then
        (case resolveURL (the href) location of
           None \<Rightarrow> ([], Inl TypeError)
         | Some u \<Rightarrow>
             ([], Inr \<lparr>r_success = True, r_message = ''Link target: '' @ the href,
                       r_fields = None, r_url = Some u,
                       r_text = Some (slice0 50 (trim (el_textContent link)))\<rparr>))
      else ([Click], Inr \<lparr>r_success = True, r_message = ''Link activated'',
                           r_fields = None, r_url = None, r_text = None\<rparr>))"

subsection \<open>Tool descriptors and the registry (index.js, lines 294-348)\<close>

text \<open>A handler closes over the live element, named here by its \<open>el_ref\<close>.\<close>

datatype handler = FormHandler nat | ButtonHandler nat | LinkHandler nat

record annotations =
  readOnlyHint :: "bool option"
  destructiveHint :: "bool option"

text \<open>\<open>annotations = None\<close>: the descriptor object has no \<^verbatim>\<open>annotations\<close> property, so reading it
  gives \<^verbatim>\<open>undefined\<close>.\<close>

record 'n tool =
  name :: string
  description :: string
  inputSchema :: "'n schema"
  handler :: handler
  annotations :: "annotations option"

text \<open>The arguments of the calls of \<^verbatim>\<open>log\<close>, in place of the formatted console line.\<close>

datatype logmsg =
    LogScanning
  | LogMaxTools int string
  | LogSinkFailed string string
  | LogRegistered string string
  | LogScanComplete nat
  | LogDomChanged
  | LogWatching
  | LogUnregistered

text \<open>
  \<^verbatim>\<open>navigator.modelContext\<close>, when there is one: \<open>mc_registerTool\<close> is \<open>None\<close> when the method is
  missing, and otherwise says for each descriptor whether the call throws, and with which
  message; \<open>mc_clearTools\<close> says whether that method exists.
\<close>

record 'n modelContext =
  mc_registerTool :: "('n tool \<Rightarrow> string option) option"
  mc_clearTools :: bool

datatype 'n sinkCall = SinkRegister "'n tool" | SinkClear

text \<open>
  The closure state of \<^verbatim>\<open>instrument\<close>: the map \<^verbatim>\<open>registeredTools\<close> in insertion order,
  \<^verbatim>\<open>toolCount\<close>, and \<^verbatim>\<open>observer\<close> (set or \<^verbatim>\<open>null\<close>); beside it what the outside sees: console
  lines, calls made on the external sink, calls of \<^verbatim>\<open>onToolRegistered\<close>. \<open>draws\<close> counts the name
  generations so far and indexes the random oracle of the scan. The sink and the callback
  are taken to return without calling back into the instance.
\<close>

record 'n state =
  registeredTools :: "(string \<times> 'n tool) list"
  toolCount :: nat
  observer :: bool
  console :: "logmsg list"
  sinkCalls :: "'n sinkCall list"
  callbackCalls :: "'n tool list"
  draws :: nat

definition initialState :: "'n state" where
  "initialState = \<lparr>registeredTools = [], toolCount = 0, observer = False, console = [],
     sinkCalls = [], callbackCalls = [], draws = 0\<rparr>"

definition log :: "config \<Rightarrow> logmsg \<Rightarrow> 'n state \<Rightarrow> 'n state" where
  "log cfg msg st = (if cfg_debug cfg then st\<lparr>console := console st @ [msg]\<rparr> else st)"

definition isExcluded :: "config \<Rightarrow> element \<Rightarrow> bool" where
  "isExcluded cfg element =
     list_ex (\<lambda>selector. selector \<in> set (el_matches element) \<or> selector \<in> set (el_closest element))
       (cfg_exclude cfg)"

text \<open>\<^verbatim>\<open>registeredTools.has(k)\<close>\<close>

definition has :: "(string \<times> 'a) list \<Rightarrow> string \<Rightarrow> bool" where
  "has m k = (map_of m k \<noteq> None)"

text \<open>The \<^verbatim>\<open>try { mc.registerTool(tool) } catch\<close> block.\<close>

definition forwardToSink :: "config \<Rightarrow> 'n modelContext option \<Rightarrow> 'n tool \<Rightarrow> 'n state \<Rightarrow> 'n state" where
  "forwardToSink cfg mc t st =
     (case mc of
        None \<Rightarrow> st
      | Some m \<Rightarrow>
          (case mc_registerTool m of
             None \<Rightarrow> st
           | Some reg \<Rightarrow>
               (let st1 = st\<lparr>sinkCalls := sinkCalls st @ [SinkRegister t]\<rparr>
                in case reg t of
                     None \<Rightarrow> st1
                   | Some msg \<Rightarrow> log cfg (LogSinkFailed (name t) msg) st1)))"

definition registerWebMCPTool :: "config \<Rightarrow> 'n modelContext option \<Rightarrow> 'n tool \<Rightarrow> 'n state \<Rightarrow> 'n state" where
  "registerWebMCPTool cfg mc t st =
     (if int (toolCount st) \<ge> cfg_maxTools cfg then log cfg (LogMaxTools (cfg_maxTools cfg) (name t)) st
      else if has (registeredTools st) (name t) then st
      else
        (let st1 = forwardToSink cfg mc t st;
             st2 = st1\<lparr>registeredTools := AList.update (name t) t (registeredTools st1),
                       toolCount := Suc (toolCount st1)\<rparr>;
             st3 = (if cfg_onToolRegistered cfg
                    then st2\<lparr>callbackCalls := callbackCalls st2 @ [t]\<rparr> else st2)
         in log cfg (LogRegistered (name t) (description t)) st3))"

subsection \<open>\<^verbatim>\<open>scan\<close> (index.js, lines 352-443)\<close>

definition emptySchema :: "'n schema" where
  "emptySchema = \<lparr>s_type = ''object'', s_properties = [], s_propertiesProto = None,
     s_required = None\<rparr>"

text \<open>A call of \<^verbatim>\<open>generateToolName\<close> inside a scan: the oracle \<open>rnd\<close> supplies the random suffix
  of this call.\<close>

definition nameFor :: "config \<Rightarrow> (nat \<Rightarrow> string) \<Rightarrow> element \<Rightarrow> string \<Rightarrow> 'n state \<Rightarrow> string option \<times> 'n state" where
  "nameFor cfg rnd element context st =
     (generateToolName element (cfg_prefix cfg) context (rnd (draws st)),
      st\<lparr>draws := Suc (draws st)\<rparr>)"

text \<open>Phase 1, the body of \<^verbatim>\<open>for (const form of forms)\<close>.\<close>

definition scanFormElement ::
  "config \<Rightarrow> 'n modelContext option \<Rightarrow> (string \<Rightarrow> 'n) \<Rightarrow> (nat \<Rightarrow> string) \<Rightarrow> 'n state \<Rightarrow> element \<Rightarrow> 'n state" where
  "scanFormElement cfg mc pf rnd st form =
     (if isExcluded cfg form then st
      else if truthyAttr (getAttribute form ''toolname'') then st
      else
        (let (toolName, st1) = nameFor cfg rnd form ''form'' st in
         case toolName of
           None \<Rightarrow> st1
         | Some n \<Rightarrow>
             (let sch = scanForm pf form in
              if length (map fst (s_properties sch)) = 0 then st1
              else registerWebMCPTool cfg mc
                     \<lparr>name = n, description = generateDescription form ''form'',
                      inputSchema = sch, handler = FormHandler (el_ref form),
                      annotations = Some \<lparr>readOnlyHint = Some False, destructiveHint = Some False\<rparr>\<rparr>
                     st1)))"

text \<open>Phase 2, the body of \<^verbatim>\<open>for (const button of buttons)\<close>.\<close>

definition scanButtonElement ::
  "config \<Rightarrow> 'n modelContext option \<Rightarrow> (nat \<Rightarrow> string) \<Rightarrow> 'n state \<Rightarrow> element \<Rightarrow> 'n state" where
  "scanButtonElement cfg mc rnd st button =
     (if isExcluded cfg button then st
      else if ''form'' \<in> set (el_closest button) then st
      else if \<not> truthy (trim (el_textContent button))
              \<and> \<not> truthyAttr (getAttribute button ''aria-label'') then st
      else
        (let (toolName, st1) = nameFor cfg rnd button ''button'' st in
         case toolName of
           None \<Rightarrow> st1
         | Some n \<Rightarrow>
             registerWebMCPTool cfg mc
               \<lparr>name = n, description = generateDescription button ''button'',
                inputSchema = emptySchema, handler = ButtonHandler (el_ref button),
                annotations = Some \<lparr>readOnlyHint = Some False, destructiveHint = None\<rparr>\<rparr>
               st1))"

text \<open>Phase 3, the body of \<^verbatim>\<open>for (const link of navLinks)\<close>.\<close>

definition scanLinkElement ::
  "config \<Rightarrow> 'n modelContext option \<Rightarrow> (nat \<Rightarrow> string) \<Rightarrow> 'n state \<Rightarrow> element \<Rightarrow> 'n state" where
  "scanLinkElement cfg mc rnd st link =
     (if isExcluded cfg link then st
      else
        (let href = getAttribute link ''href'' in
         if \<not> truthyAttr href \<or> the href = ''#'' \<or> startsWith (the href) ''javascript:'' then st
         else
           (let (toolName, st1) = nameFor cfg rnd link ''link'' st in
            case toolName of
              None \<Rightarrow> st1
            | Some n \<Rightarrow>
                registerWebMCPTool cfg mc
                  \<lparr>name = n, description = generateDescription link ''link'',
                   inputSchema = emptySchema, handler = LinkHandler (el_ref link),
                   annotations = Some \<lparr>readOnlyHint = Some True, destructiveHint = None\<rparr>\<rparr>
                  st1)))"

text \<open>Phase 4, the body of the inner loop \<^verbatim>\<open>for (const el of elements)\<close>.\<close>

definition scanIncludedElement ::
  "config \<Rightarrow> 'n modelContext option \<Rightarrow> (string \<Rightarrow> 'n) \<Rightarrow> (nat \<Rightarrow> string) \<Rightarrow> 'n state \<Rightarrow> element \<Rightarrow> 'n state" where
  "scanIncludedElement cfg mc pf rnd st el =
     (if isExcluded cfg el then st
      else
        (let context = (if el_tagName el = ''FORM'' then ''form'' else ''button'');
             (toolName, st1) = nameFor cfg rnd el context st in
         case toolName of
           None \<Rightarrow> st1
         | Some n \<Rightarrow>
             (let h = (if context = ''form'' then FormHandler (el_ref el)
                       else ButtonHandler (el_ref el));
                  sch = (if context = ''form'' then scanForm pf el else emptySchema)
              in registerWebMCPTool cfg mc
                   \<lparr>name = n, description = generateDescription el context,
                    inputSchema = sch, handler = h, annotations = None\<rparr>
                   st1)))"

definition scan ::
  "config \<Rightarrow> 'n modelContext option \<Rightarrow> (string \<Rightarrow> 'n) \<Rightarrow> (nat \<Rightarrow> string) \<Rightarrow> document \<Rightarrow> 'n state \<Rightarrow> 'n state" where
  "scan cfg mc pf rnd doc st =
     (let s0 = log cfg LogScanning st;
          s1 = foldl (scanFormElement cfg mc pf rnd) s0 (d_forms doc);
          s2 = foldl (scanButtonElement cfg mc rnd) s1 (d_buttons doc);
          s3 = foldl (scanLinkElement cfg mc rnd) s2 (d_navLinks doc);
          s4 = foldl (\<lambda>s selector.
                        foldl (scanIncludedElement cfg mc pf rnd) s (querySelectorAll doc selector))
                 s3 (cfg_include cfg)
      in log cfg (LogScanComplete (length (registeredTools s4))) s4)"

subsection \<open>Watching and the public operations (index.js, lines 447-532)\<close>

text \<open>\<open>mutationObserver\<close> says whether the host defines \<^verbatim>\<open>MutationObserver\<close>. The debounce timer is
  not modelled; \<open>rescan\<close> is what runs when it fires.\<close>

definition startWatching :: "config \<Rightarrow> bool \<Rightarrow> 'n state \<Rightarrow> 'n state" where
  "startWatching cfg mutationObserver st =
     (if \<not> cfg_watch cfg then st
      else if \<not> mutationObserver then st
      else log cfg LogWatching (st\<lparr>observer := True\<rparr>))"

definition rescan ::
  "config \<Rightarrow> 'n modelContext option \<Rightarrow> (string \<Rightarrow> 'n) \<Rightarrow> (nat \<Rightarrow> string) \<Rightarrow> document \<Rightarrow> 'n state \<Rightarrow> 'n state" where
  "rescan cfg mc pf rnd doc st = scan cfg mc pf rnd doc (log cfg LogDomChanged st)"

definition stopWatching :: "'n state \<Rightarrow> 'n state" where
  "stopWatching st = (if observer st then st\<lparr>observer := False\<rparr> else st)"

text \<open>The shape \<^verbatim>\<open>getTools\<close> exports: the four properties it copies, and no handler.\<close>

record 'n exportedTool =
  x_name :: string
  x_description :: string
  x_inputSchema :: "'n schema"
  x_annotations :: "annotations option"

definition getTools :: "'n state \<Rightarrow> 'n exportedTool list" where
  "getTools st =
     map (\<lambda>t. \<lparr>x_name = name t, x_description = description t,
                x_inputSchema = inputSchema t, x_annotations = annotations t\<rparr>)
       (map snd (registeredTools st))"

definition destroy :: "config \<Rightarrow> 'n modelContext option \<Rightarrow> 'n state \<Rightarrow> 'n state" where
  "destroy cfg mc st =
     (let st1 = stopWatching st;
          st2 = (case mc of
                   None \<Rightarrow> st1
                 | Some m \<Rightarrow> if mc_clearTools m
                             then st1\<lparr>sinkCalls := sinkCalls st1 @ [SinkClear]\<rparr> else st1);
          st3 = st2\<lparr>registeredTools := [], toolCount := 0\<rparr>
      in log cfg LogUnregistered st3)"

text \<open>
  What can happen to the closure state after \<^verbatim>\<open>instrument\<close> has created it: one call of
  \<^verbatim>\<open>registerWebMCPTool\<close> (from any scan, complete or cut short), a whole scan pass over the
  document of the moment (the initial one, or a call of the public \<^verbatim>\<open>scan\<close>), a pass started
  by the watcher, \<^verbatim>\<open>startWatching\<close>, \<^verbatim>\<open>stopWatching\<close>, or \<^verbatim>\<open>destroy\<close>.
\<close>

datatype 'n action =
    Register "'n tool"
  | ScanPass "nat \<Rightarrow> string" document
  | WatcherPass "nat \<Rightarrow> string" document
  | StartWatching bool
  | StopWatching
  | Destroy

definition step ::
  "config \<Rightarrow> 'n modelContext option \<Rightarrow> (string \<Rightarrow> 'n) \<Rightarrow> 'n state \<Rightarrow> 'n action \<Rightarrow> 'n state" where
  "step cfg mc pf st a =
     (case a of
        Register t \<Rightarrow> registerWebMCPTool cfg mc t st
      | ScanPass rnd doc \<Rightarrow> scan cfg mc pf rnd doc st
      | WatcherPass rnd doc \<Rightarrow> rescan cfg mc pf rnd doc st
      | StartWatching mutationObserver \<Rightarrow> startWatching cfg mutationObserver st
      | StopWatching \<Rightarrow> stopWatching st
      | Destroy \<Rightarrow> destroy cfg mc st)"

definition run ::
  "config \<Rightarrow> 'n modelContext option \<Rightarrow> (string \<Rightarrow> 'n) \<Rightarrow> 'n action list \<Rightarrow> 'n state" where
  "run cfg mc pf actions = foldl (step cfg mc pf) initialState actions"

subsection \<open>Auxiliary notions used in the proofs\<close>

text \<open>The alphabet of a slug, and strings without two adjacent underscores.\<close>

definition okChar :: "char \<Rightarrow> bool" where
  "okChar c = (isLowerAlnum c \<or> c = CHR ''_'')"

fun noDouble :: "string \<Rightarrow> bool" where
  "noDouble (a # b # r) = (\<not> (a = CHR ''_'' \<and> b = CHR ''_'') \<and> noDouble (b # r))"
| "noDouble _ = True"

definition clean :: "string \<Rightarrow> bool" where
  "clean y = ((\<forall>c \<in> set y. okChar c) \<and> noDouble y \<and> (y = [] \<or> hd y \<noteq> CHR ''_''))"

text \<open>Whether a call of \<^verbatim>\<open>registerWebMCPTool\<close> passes both guards and stores its descriptor.\<close>

definition stores :: "config \<Rightarrow> 'n tool \<Rightarrow> 'n state \<Rightarrow> bool" where
  "stores cfg t st = (int (toolCount st) < cfg_maxTools cfg \<and> \<not> has (registeredTools st) (name t))"

text \<open>The invariant of the closure state.\<close>

definition consistent :: "config \<Rightarrow> 'n state \<Rightarrow> bool" where
  "consistent cfg st =
     (toolCount st = length (registeredTools st)
      \<and> (0 < cfg_maxTools cfg \<longrightarrow> int (length (registeredTools st)) \<le> cfg_maxTools cfg))"





text \<open>
  An address that uses the script-execution pseudo-scheme, as a browser's URL parser reads
  it: leading control characters and spaces are dropped, tabs and line breaks are removed,
  and the scheme is compared without regard to case.
\<close>

definition asciiLower :: "char \<Rightarrow> char" where
  "asciiLower c = (if 65 \<le> code c \<and> code c \<le> 90 then char_of (code c + 32) else c)"

definition isScriptURL :: "string \<Rightarrow> bool" where
  "isScriptURL href =
     startsWith
       (map asciiLower
          (filter (\<lambda>c. code c \<noteq> 9 \<and> code c \<noteq> 10 \<and> code c \<noteq> 13)
             (dropWhile (\<lambda>c. code c \<le> 32) href)))
       ''javascript:''"


text \<open>A control that \<^verbatim>\<open>scanForm\<close> does not skip: it has a name or an id, and its kind is neither
  hidden nor submit.\<close>

definition scannable :: "control \<Rightarrow> bool" where
  "scannable i = (truthy (fieldName i) \<and> c_type i \<noteq> ''hidden'' \<and> c_type i \<noteq> ''submit'')"

text \<open>What the link handler does and returns on its activation path.\<close>

definition linkActivated :: "effect list \<times> (jserror + result)" where
  "linkActivated = ([Click], Inr \<lparr>r_success = True, r_message = ''Link activated'',
                           r_fields = None, r_url = None, r_text = None\<rparr>)"

subsection \<open>Concrete pages and descriptors\<close>

definition buttonTool :: "string \<Rightarrow> nat \<Rightarrow> int tool" where
  "buttonTool n r = \<lparr>name = n, description = ''Click: '' @ n, inputSchema = emptySchema,
     handler = ButtonHandler r,
     annotations = Some \<lparr>readOnlyHint = Some False, destructiveHint = None\<rparr>\<rparr>"

definition noParse :: "string \<Rightarrow> int" where
  "noParse s = 0"

definition configMax :: "int \<Rightarrow> config" where
  "configMax k = DEFAULT_CONFIG\<lparr>cfg_maxTools := k, cfg_onToolRegistered := True\<rparr>"

text \<open>Thirty-nine letters, a space and one more letter: the slug is cut inside the separator.\<close>

definition longLabel :: string where
  "longLabel = replicate 39 CHR ''a'' @ '' b''"

text \<open>The random suffix, fixed for the concrete scans below.\<close>

definition fixedSuffix :: "nat \<Rightarrow> string" where
  "fixedSuffix k = ''ab12''"

text \<open>Reads a string of decimal digits; stands for \<^verbatim>\<open>parseFloat\<close> on such strings.\<close>

definition decimal :: "string \<Rightarrow> int" where
  "decimal s = foldl (\<lambda>a c. 10 * a + (of_char c - 48)) 0 s"

text \<open>A toy \<^verbatim>\<open>URL\<close> constructor: it resolves a path that starts with a slash against one
  origin and throws on everything else.\<close>

definition originResolve :: "string \<Rightarrow> string \<Rightarrow> string option" where
  "originResolve href base =
     (if take 1 href = ''/'' then Some (''https://shop.example'' @ href) else None)"

definition blankControl :: control where
  "blankControl = \<lparr>c_tagName = ''INPUT'', c_name = [], c_id = [], c_type = ''text'', c_min = [],
     c_max = [], c_placeholder = [], c_pattern = [], c_required = False, c_options = [],
     c_checked = False, c_value = JStr []\<rparr>"

definition blankElement :: element where
  "blankElement = \<lparr>el_ref = 0, el_tagName = ''DIV'', el_id = [], el_name = [], el_type = [],
     el_attrs = [], el_textContent = [], el_controls = [], el_labels = [], el_matches = [],
     el_closest = []\<rparr>"

text \<open>The search form of the project's README: a required text field, a selection with three
  options and a number field with bounds 0 and 1000.\<close>

definition searchForm :: element where
  "searchForm = blankElement\<lparr>el_ref := 1, el_tagName := ''FORM'', el_id := ''product-search'',
     el_attrs := [(''id'', ''product-search'')],
     el_controls :=
       [blankControl\<lparr>c_name := ''query'', c_placeholder := ''Search products...'',
          c_required := True\<rparr>,
        blankControl\<lparr>c_tagName := ''SELECT'', c_name := ''category'', c_type := ''select-one'',
          c_options := [''shoes'', ''shirts'', ''pants''], c_value := JStr ''shoes''\<rparr>,
        blankControl\<lparr>c_name := ''maxPrice'', c_type := ''number'', c_min := ''0'',
          c_max := ''1000''\<rparr>]\<rparr>"



definition cartLink :: element where
  "cartLink = blankElement\<lparr>el_ref := 7, el_tagName := ''A'', el_attrs := [(''href'', ''/cart'')],
     el_textContent := '' Cart ''\<rparr>"

definition scriptLink :: element where
  "scriptLink = blankElement\<lparr>el_ref := 9, el_tagName := ''A'',
     el_attrs := [(''href'', ''javascript:openMenu()'')], el_textContent := ''Menu''\<rparr>"

definition anchorWithoutHref :: element where
  "anchorWithoutHref = blankElement\<lparr>el_ref := 10, el_tagName := ''A'', el_textContent := ''Help''\<rparr>"

text \<open>A link whose address the toy constructor above rejects.\<close>

definition brokenLink :: element where
  "brokenLink = blankElement\<lparr>el_ref := 11, el_tagName := ''A'', el_attrs := [(''href'', ''http://'')],
     el_textContent := ''Broken''\<rparr>"

text \<open>\<^verbatim>\<open><a href="">Top</a>\<close>: the attribute is there and empty.\<close>

definition emptyHrefLink :: element where
  "emptyHrefLink = blankElement\<lparr>el_ref := 8, el_tagName := ''A'', el_attrs := [(''href'', [])],
     el_textContent := ''Top''\<rparr>"

text \<open>A form whose only controls are a hidden field and a submit button, and a page that holds
  it; the selector \<^verbatim>\<open>form.newsletter\<close> finds it as well.\<close>

definition newsletterForm :: element where
  "newsletterForm = blankElement\<lparr>el_ref := 2, el_tagName := ''FORM'', el_id := ''newsletter'',
     el_attrs := [(''id'', ''newsletter''), (''class'', ''newsletter'')],
     el_controls :=
       [blankControl\<lparr>c_name := ''csrf'', c_type := ''hidden''\<rparr>,
        blankControl\<lparr>c_name := ''go'', c_type := ''submit''\<rparr>]\<rparr>"

definition newsletterPage :: document where
  "newsletterPage = \<lparr>d_forms = [newsletterForm], d_buttons = [], d_navLinks = [],
     d_query = [(''form.newsletter'', [newsletterForm])]\<rparr>"

definition includeNewsletter :: config where
  "includeNewsletter = DEFAULT_CONFIG\<lparr>cfg_include := [''form.newsletter'']\<rparr>"

text \<open>\<^verbatim>\<open><div data-action="add">Add to cart</div>\<close>, found by the selector \<^verbatim>\<open>[data-action]\<close>, and
  a \<^verbatim>\<open><button>Checkout</button>\<close> outside any form.\<close>

definition addToCart :: element where
  "addToCart = blankElement\<lparr>el_ref := 3, el_attrs := [(''data-action'', ''add'')],
     el_textContent := ''Add to cart''\<rparr>"

definition checkoutButton :: element where
  "checkoutButton = blankElement\<lparr>el_ref := 4, el_tagName := ''BUTTON'',
     el_textContent := ''Checkout''\<rparr>"

definition actionPage :: document where
  "actionPage = \<lparr>d_forms = [], d_buttons = [checkoutButton], d_navLinks = [],
     d_query = [(''[data-action]'', [addToCart])]\<rparr>"

definition includeActions :: config where
  "includeActions = DEFAULT_CONFIG\<lparr>cfg_include := [''[data-action]'']\<rparr>"

text \<open>A form with a required field named \<^verbatim>\<open>__proto__\<close> and an e-mail field.\<close>

definition protoForm :: element where
  "protoForm = blankElement\<lparr>el_ref := 6, el_tagName := ''FORM'', el_id := ''signup'',
     el_attrs := [(''id'', ''signup'')],
     el_controls :=
       [blankControl\<lparr>c_name := ''__proto__'', c_required := True\<rparr>,
        blankControl\<lparr>c_name := ''email'', c_type := ''email''\<rparr>]\<rparr>"

text \<open>\<^verbatim>\<open><a href="JavaScript:openMenu()">Menu</a>\<close>: the script scheme in another spelling.\<close>

definition mixedCaseScriptLink :: element where
  "mixedCaseScriptLink = blankElement\<lparr>el_ref := 12, el_tagName := ''A'',
     el_attrs := [(''href'', ''JavaScript:openMenu()'')], el_textContent := ''Menu''\<rparr>"

text \<open>\<^verbatim>\<open><form id="!!!">\<close>: an identifier without a single slug character.\<close>

definition punctuationForm :: element where
  "punctuationForm = blankElement\<lparr>el_ref := 5, el_tagName := ''FORM'', el_id := ''!!!'',
     el_attrs := [(''id'', ''!!!'')],
     el_controls := [blankControl\<lparr>c_name := ''email'', c_type := ''email''\<rparr>]\<rparr>"

section \<open>Properties\<close>

subsection \<open>The slug transform\<close>

lemma code_underscore: "code CHR ''_'' = 95"
  by (simp add: code_def)

lemma code_hyphen: "code CHR ''-'' = 45"
  by (simp add: code_def)

lemma alnum_not_sep: "isLowerAlnum c \<Longrightarrow> \<not> isSep c"
  by (auto simp: isLowerAlnum_def isSep_def isSpace_def code_underscore code_hyphen)

lemma underscore_sep: "isSep CHR ''_''"
  by (simp add: isSep_def)

lemma okChar_sep: "okChar c \<Longrightarrow> isSep c = (c = CHR ''_'')"
  using alnum_not_sep underscore_sep by (auto simp: okChar_def)

lemma okChar_slug: "okChar c \<Longrightarrow> isSlugChar c"
  by (auto simp: okChar_def isSlugChar_def)

lemma okChar_lower: "okChar c \<Longrightarrow> lowerChar c = c"
  by (auto simp: okChar_def lowerChar_def isLowerAlnum_def code_underscore)

lemma slug_nonsep_ok: "isSlugChar c \<Longrightarrow> \<not> isSep c \<Longrightarrow> okChar c"
  by (auto simp: isSlugChar_def isSep_def okChar_def)

lemma noDouble_Cons:
  "noDouble (a # xs) = ((xs = [] \<or> \<not> (a = CHR ''_'' \<and> hd xs = CHR ''_'')) \<and> noDouble xs)"
  by (cases xs) auto

lemma noDouble_tl: "noDouble s \<Longrightarrow> noDouble (tl s)"
  by (cases s) (auto simp: noDouble_Cons)

lemma noDouble_take: "noDouble s \<Longrightarrow> noDouble (take n s)"
proof (induction s arbitrary: n)
  case Nil
  then show ?case by simp
next
  case (Cons a s)
  show ?case
  proof (cases n)
    case 0
    then show ?thesis by simp
  next
    case (Suc m)
    have "noDouble (take m s)" using Cons by (simp add: noDouble_Cons)
    moreover have "take m s = [] \<or> hd (take m s) = hd s"
      by (cases m; cases s) auto
    moreover have "take m s \<noteq> [] \<Longrightarrow> s \<noteq> []" by auto
    ultimately show ?thesis using Cons.prems Suc
      by (auto simp: noDouble_Cons)
  qed
qed

lemma noDouble_butlast: "noDouble s \<Longrightarrow> noDouble (butlast s)"
  by (simp add: butlast_conv_take noDouble_take)

lemma collapse_chars:
  "\<forall>c \<in> set s. isSlugChar c \<Longrightarrow> \<forall>c \<in> set (collapseRuns s). okChar c"
proof (induction s rule: collapseRuns.induct)
  case 1
  then show ?case by simp
next
  case (2 c cs)
  show ?case
  proof (cases "isSep c")
    case True
    have "\<forall>c \<in> set (dropWhile isSep cs). isSlugChar c"
      using "2.prems" by (auto dest: set_dropWhileD)
    with True "2.IH"(1) show ?thesis by (simp add: okChar_def)
  next
    case False
    with "2.prems" "2.IH"(2) show ?thesis by (simp add: slug_nonsep_ok)
  qed
qed

lemma collapse_head:
  "t = [] \<or> \<not> isSep (hd t) \<Longrightarrow> collapseRuns t = [] \<or> hd (collapseRuns t) \<noteq> CHR ''_''"
  using underscore_sep by (cases t) auto

lemma collapse_noDouble: "noDouble (collapseRuns s)"
proof (induction s rule: collapseRuns.induct)
  case 1
  then show ?case by simp
next
  case (2 c cs)
  show ?case
  proof (cases "isSep c")
    case True
    have "dropWhile isSep cs = [] \<or> \<not> isSep (hd (dropWhile isSep cs))"
      using hd_dropWhile by blast
    then have "collapseRuns (dropWhile isSep cs) = [] \<or> hd (collapseRuns (dropWhile isSep cs)) \<noteq> CHR ''_''"
      by (rule collapse_head)
    with True "2.IH"(1) show ?thesis by (auto simp: noDouble_Cons)
  next
    case False
    then have "c \<noteq> CHR ''_''" using underscore_sep by auto
    with False "2.IH"(2) show ?thesis by (simp add: noDouble_Cons)
  qed
qed

lemma dropTrailing_subset: "set (dropTrailing s) \<subseteq> set s"
  by (auto simp: dropTrailing_def dest: in_set_butlastD)

lemma dropTrailing_noDouble: "noDouble s \<Longrightarrow> noDouble (dropTrailing s)"
  by (simp add: dropTrailing_def noDouble_butlast)

lemma dropTrailing_head:
  "s = [] \<or> hd s \<noteq> CHR ''_'' \<Longrightarrow> dropTrailing s = [] \<or> hd (dropTrailing s) \<noteq> CHR ''_''"
  by (cases s rule: rev_cases; cases "butlast s") (auto simp: dropTrailing_def hd_append split: if_splits)

lemma trimEnds_subset: "set (trimEnds s) \<subseteq> set s"
proof (cases s)
  case Nil
  then show ?thesis by (simp add: trimEnds_def)
next
  case (Cons c cs)
  have "set (dropTrailing cs) \<subseteq> set s" using dropTrailing_subset [of cs] Cons by auto
  moreover have "set (dropTrailing s) \<subseteq> set s" by (rule dropTrailing_subset)
  ultimately show ?thesis using Cons by (auto simp: trimEnds_def)
qed

lemma trimEnds_noDouble: "noDouble s \<Longrightarrow> noDouble (trimEnds s)"
  by (cases s) (auto simp: trimEnds_def noDouble_Cons dropTrailing_noDouble)

lemma trimEnds_head: "noDouble s \<Longrightarrow> trimEnds s = [] \<or> hd (trimEnds s) \<noteq> CHR ''_''"
proof (cases s)
  case Nil
  then show ?thesis by (simp add: trimEnds_def)
next
  case (Cons c cs)
  assume nd: "noDouble s"
  show ?thesis
  proof (cases "c = CHR ''_''")
    case True
    then have "cs = [] \<or> hd cs \<noteq> CHR ''_''" using nd Cons by (auto simp: noDouble_Cons)
    then show ?thesis using True Cons dropTrailing_head [of cs] by (simp add: trimEnds_def)
  next
    case False
    then show ?thesis using Cons dropTrailing_head [of s] by (simp add: trimEnds_def)
  qed
qed

lemma slugify_clean: "clean (slugify x)"
proof -
  let ?n = "trimEnds (collapseRuns (stripOther (toLowerCase x)))"
  have a: "\<forall>c \<in> set (collapseRuns (stripOther (toLowerCase x))). okChar c"
    by (rule collapse_chars) (simp add: stripOther_def)
  have b: "noDouble (collapseRuns (stripOther (toLowerCase x)))"
    by (rule collapse_noDouble)
  have c1: "\<forall>c \<in> set ?n. okChar c" using a trimEnds_subset by blast
  have c2: "noDouble ?n" using b by (rule trimEnds_noDouble)
  have c3: "?n = [] \<or> hd ?n \<noteq> CHR ''_''" using b by (rule trimEnds_head)
  have d1: "\<forall>c \<in> set (take 40 ?n). okChar c" using c1 by (auto dest: in_set_takeD)
  have d2: "noDouble (take 40 ?n)" using c2 by (rule noDouble_take)
  have d3: "take 40 ?n = [] \<or> hd (take 40 ?n) \<noteq> CHR ''_''" using c3 by (cases ?n) auto
  show ?thesis unfolding clean_def slugify_def slice0_def using d1 d2 d3 by blast
qed

lemma slugify_length: "length (slugify x) \<le> 40"
  by (simp add: slugify_def slice0_def)

lemma clean_lower: "\<forall>c \<in> set y. okChar c \<Longrightarrow> toLowerCase y = y"
  by (simp add: toLowerCase_def okChar_lower map_idI)

lemma clean_strip: "\<forall>c \<in> set y. okChar c \<Longrightarrow> stripOther y = y"
  by (simp add: stripOther_def okChar_slug)

lemma clean_collapse: "\<forall>c \<in> set y. okChar c \<Longrightarrow> noDouble y \<Longrightarrow> collapseRuns y = y"
proof (induction y)
  case Nil
  then show ?case by simp
next
  case (Cons c cs)
  have ih: "collapseRuns cs = cs" using Cons by (simp add: noDouble_Cons)
  show ?case
  proof (cases "c = CHR ''_''")
    case True
    have "cs = [] \<or> \<not> isSep (hd cs)"
    proof (cases cs)
      case Nil
      then show ?thesis by simp
    next
      case (Cons d ds)
      then have "d \<noteq> CHR ''_''" "okChar d" using Cons.prems True \<open>noDouble (c # cs)\<close> \<open>\<forall>c\<in>set (c # cs). okChar c\<close>
        by (auto simp: noDouble_Cons)
      then show ?thesis using Cons okChar_sep by simp
    qed
    then have "dropWhile isSep cs = cs" by (cases cs) auto
    with True ih show ?thesis by (simp add: underscore_sep)
  next
    case False
    then have "\<not> isSep c" using Cons.prems(1) okChar_sep by simp
    with ih show ?thesis by simp
  qed
qed

lemma clean_trimEnds: "y = [] \<or> hd y \<noteq> CHR ''_'' \<Longrightarrow> trimEnds y = dropTrailing y"
  by (cases y) (auto simp: trimEnds_def dropTrailing_def)

lemma slugify_on_clean:
  assumes "clean y" "length y \<le> 40"
  shows "slugify y = dropTrailing y"
proof -
  from assms(1) have ok: "\<forall>c \<in> set y. okChar c" and nd: "noDouble y"
    and hd: "y = [] \<or> hd y \<noteq> CHR ''_''"
    by (simp_all add: clean_def)
  have "length (dropTrailing y) \<le> 40" using assms(2) by (auto simp: dropTrailing_def)
  then show ?thesis
    by (simp add: slugify_def slice0_def clean_lower [OF ok] clean_strip [OF ok]
        clean_collapse [OF ok nd] clean_trimEnds [OF hd])
qed

lemma dropTrailing_fix: "(dropTrailing y = y) = (y = [] \<or> last y \<noteq> CHR ''_'')"
proof (cases y rule: rev_cases)
  case Nil
  then show ?thesis by (simp add: dropTrailing_def)
next
  case (snoc ys c)
  then show ?thesis by (simp add: dropTrailing_def)
qed

lemma noDouble_snoc2: "noDouble (ys @ [y, z]) \<Longrightarrow> \<not> (y = CHR ''_'' \<and> z = CHR ''_'')"
  by (induction ys rule: noDouble.induct) (auto simp: noDouble_Cons split: if_splits)

lemma dropTrailing_last:
  assumes "noDouble t"
  shows "dropTrailing t = [] \<or> last (dropTrailing t) \<noteq> CHR ''_''"
proof (cases "t \<noteq> [] \<and> last t = CHR ''_''")
  case False
  then show ?thesis by (auto simp: dropTrailing_def)
next
  case True
  then obtain ys where t: "t = ys @ [CHR ''_'']" by (metis append_butlast_last_id)
  show ?thesis
  proof (cases ys rule: rev_cases)
    case Nil
    with t show ?thesis by (simp add: dropTrailing_def)
  next
    case (snoc zs y)
    with t assms have "y \<noteq> CHR ''_''" using noDouble_snoc2 [of zs y "CHR ''_''"] by simp
    moreover have "dropTrailing t = zs @ [y]"
      using t snoc by (simp add: dropTrailing_def butlast_append)
    ultimately show ?thesis by simp
  qed
qed

lemma trimEnds_last: "noDouble s \<Longrightarrow> trimEnds s = [] \<or> last (trimEnds s) \<noteq> CHR ''_''"
  using dropTrailing_last [of s] dropTrailing_last [of "tl s"] noDouble_tl [of s]
  by (cases s) (auto simp: trimEnds_def)

lemma slugify_untruncated:
  assumes "length (trimEnds (collapseRuns (stripOther (toLowerCase x)))) \<le> 40"
  shows "slugify x = [] \<or> last (slugify x) \<noteq> CHR ''_''"
proof -
  have "slugify x = trimEnds (collapseRuns (stripOther (toLowerCase x)))"
    using assms by (simp add: slugify_def slice0_def)
  then show ?thesis using trimEnds_last [OF collapse_noDouble] by simp
qed

text \<open>A slug that the cut at 40 characters leaves whole does not end in an underscore, and is
  a fixed point.\<close>

lemma slugify_untruncated_idempotent:
  assumes "length (trimEnds (collapseRuns (stripOther (toLowerCase x)))) \<le> 40"
  shows "slugify (slugify x) = slugify x"
  using slugify_on_clean [OF slugify_clean slugify_length, of x] dropTrailing_fix [of "slugify x"]
    slugify_untruncated [OF assms]
  by simp

text \<open>
  Claim C4, as amended. Applying \<open>slugify\<close> to a slug gives the same slug back exactly when
  the slug does not end in an underscore. A slug ends in an underscore only when the cut at
  40 characters falls right after a separator; the second application then trims it.
\<close>

theorem slugify_idempotent_iff:
  "(slugify (slugify x) = slugify x) = (slugify x = [] \<or> last (slugify x) \<noteq> CHR ''_'')"
  using slugify_on_clean [OF slugify_clean slugify_length, of x] dropTrailing_fix [of "slugify x"]
  by simp

text \<open>C4, witness: the slug of a short label does not end in an underscore and is a fixed
  point.\<close>

theorem slugify_idempotent_iff_witness:
  "last (slugify ''Hello, World!  -- Foo_bar'') \<noteq> CHR ''_''
   \<and> slugify (slugify ''Hello, World!  -- Foo_bar'') = slugify ''Hello, World!  -- Foo_bar''"
proof -
  have l: "last (slugify ''Hello, World!  -- Foo_bar'') \<noteq> CHR ''_''" by code_simp
  then show ?thesis
    using slugify_idempotent_iff [of "''Hello, World!  -- Foo_bar''"] by simp
qed

text \<open>C4 as stated fails: the slug of \<open>longLabel\<close> is thirty-nine letters and an underscore,
  and its slug is the thirty-nine letters alone.\<close>

theorem slugify_idempotent_counterexample:
  "slugify (slugify longLabel) \<noteq> slugify longLabel"
  by code_simp

subsection \<open>The registry\<close>

lemma update_fresh: "map_of m k = None \<Longrightarrow> AList.update k v m = m @ [(k, v)]"
  by (induction m) (auto split: if_splits)

lemma log_registry [simp]:
  "registeredTools (log cfg msg st) = registeredTools st"
  "toolCount (log cfg msg st) = toolCount st"
  "callbackCalls (log cfg msg st) = callbackCalls st"
  by (simp_all add: log_def)

lemma forwardToSink_registry [simp]:
  "registeredTools (forwardToSink cfg mc t st) = registeredTools st"
  "toolCount (forwardToSink cfg mc t st) = toolCount st"
  "callbackCalls (forwardToSink cfg mc t st) = callbackCalls st"
  by (simp_all add: forwardToSink_def Let_def split: option.splits)

lemma register_dropped:
  "\<not> stores cfg t st \<Longrightarrow>
     registeredTools (registerWebMCPTool cfg mc t st) = registeredTools st
     \<and> toolCount (registerWebMCPTool cfg mc t st) = toolCount st
     \<and> callbackCalls (registerWebMCPTool cfg mc t st) = callbackCalls st"
  by (auto simp: stores_def registerWebMCPTool_def)

lemma register_stored:
  "stores cfg t st \<Longrightarrow>
     registeredTools (registerWebMCPTool cfg mc t st) = registeredTools st @ [(name t, t)]
     \<and> toolCount (registerWebMCPTool cfg mc t st) = Suc (toolCount st)
     \<and> callbackCalls (registerWebMCPTool cfg mc t st)
         = callbackCalls st @ (if cfg_onToolRegistered cfg then [t] else [])"
  by (auto simp: stores_def registerWebMCPTool_def Let_def has_def update_fresh)

lemma consistent_initial: "consistent cfg initialState"
  by (simp add: consistent_def initialState_def)

lemma consistent_log [simp]: "consistent cfg (log cfg msg st) = consistent cfg st"
  by (simp add: consistent_def)

lemma consistent_draws [simp]: "consistent cfg (st\<lparr>draws := k\<rparr>) = consistent cfg st"
  by (simp add: consistent_def)

lemma consistent_register:
  assumes "consistent cfg st"
  shows "consistent cfg (registerWebMCPTool cfg mc t st)"
proof (cases "stores cfg t st")
  case True
  then have "int (toolCount st) < cfg_maxTools cfg" by (simp add: stores_def)
  with assms register_stored [OF True, of mc] show ?thesis
    by (auto simp: consistent_def)
next
  case False
  with assms register_dropped [OF False, of mc] show ?thesis
    by (simp add: consistent_def)
qed

lemma consistent_destroy: "consistent cfg (destroy cfg mc st)"
  by (simp add: destroy_def Let_def consistent_def)

lemma consistent_nameFor: "consistent cfg (snd (nameFor cfg rnd e c st)) = consistent cfg st"
  by (simp add: nameFor_def)

lemma consistent_scanFormElement:
  "consistent cfg st \<Longrightarrow> consistent cfg (scanFormElement cfg mc pf rnd st e)"
  by (auto simp: scanFormElement_def nameFor_def Let_def consistent_register split: option.splits)

lemma consistent_scanButtonElement:
  "consistent cfg st \<Longrightarrow> consistent cfg (scanButtonElement cfg mc rnd st e)"
  by (auto simp: scanButtonElement_def nameFor_def Let_def consistent_register split: option.splits)

lemma consistent_scanLinkElement:
  "consistent cfg st \<Longrightarrow> consistent cfg (scanLinkElement cfg mc rnd st e)"
  by (auto simp: scanLinkElement_def nameFor_def Let_def consistent_register split: option.splits)

lemma consistent_scanIncludedElement:
  "consistent cfg st \<Longrightarrow> consistent cfg (scanIncludedElement cfg mc pf rnd st e)"
  by (auto simp: scanIncludedElement_def nameFor_def Let_def consistent_register split: option.splits)

lemma consistent_foldl:
  "(\<And>s x. consistent cfg s \<Longrightarrow> consistent cfg (f s x)) \<Longrightarrow> consistent cfg st \<Longrightarrow> consistent cfg (foldl f st xs)"
  by (induction xs arbitrary: st) auto

lemma consistent_scan:
  assumes "consistent cfg st"
  shows "consistent cfg (scan cfg mc pf rnd doc st)"
proof -
  let ?s0 = "log cfg LogScanning st"
  let ?s1 = "foldl (scanFormElement cfg mc pf rnd) ?s0 (d_forms doc)"
  let ?s2 = "foldl (scanButtonElement cfg mc rnd) ?s1 (d_buttons doc)"
  let ?s3 = "foldl (scanLinkElement cfg mc rnd) ?s2 (d_navLinks doc)"
  let ?s4 = "foldl (\<lambda>s selector. foldl (scanIncludedElement cfg mc pf rnd) s (querySelectorAll doc selector)) ?s3 (cfg_include cfg)"
  have 0: "consistent cfg ?s0" using assms by simp
  have 1: "consistent cfg ?s1" using 0 by (rule consistent_foldl [rotated]) (rule consistent_scanFormElement)
  have 2: "consistent cfg ?s2" using 1 by (rule consistent_foldl [rotated]) (rule consistent_scanButtonElement)
  have 3: "consistent cfg ?s3" using 2 by (rule consistent_foldl [rotated]) (rule consistent_scanLinkElement)
  have 4: "consistent cfg ?s4" using 3
    by (rule consistent_foldl [rotated]) (rule consistent_foldl, rule consistent_scanIncludedElement)
  show ?thesis unfolding scan_def Let_def using 4 by simp
qed

lemma consistent_watching:
  "consistent cfg (startWatching cfg mo st) = consistent cfg st"
  "consistent cfg (stopWatching st) = consistent cfg st"
  by (simp_all add: startWatching_def stopWatching_def consistent_def)

lemma consistent_step: "consistent cfg st \<Longrightarrow> consistent cfg (step cfg mc pf st a)"
  by (cases a)
    (simp_all add: step_def rescan_def consistent_register consistent_scan consistent_destroy
      consistent_watching)

lemma consistent_run: "consistent cfg (run cfg mc pf actions)"
  unfolding run_def by (rule consistent_foldl [OF consistent_step consistent_initial])

text \<open>
  Claim C10. After every sequence of registrations, scan passes and \<open>destroy\<close> calls the
  counter \<open>toolCount\<close> equals the number of stored descriptors; \<open>destroy\<close> resets both to zero;
  a registration adds one to both when it stores its descriptor and leaves both as they
  were when it is dropped at capacity or as a duplicate.
\<close>

theorem counter_equals_registry_size:
  "toolCount (run cfg mc pf actions) = length (registeredTools (run cfg mc pf actions))
   \<and> toolCount (destroy cfg mc st) = 0
   \<and> registeredTools (destroy cfg mc st) = []
   \<and> (toolCount (registerWebMCPTool cfg mc t st),
        length (registeredTools (registerWebMCPTool cfg mc t st)))
       = (if stores cfg t st then (Suc (toolCount st), Suc (length (registeredTools st)))
          else (toolCount st, length (registeredTools st)))"
proof -
  have a: "toolCount (run cfg mc pf actions) = length (registeredTools (run cfg mc pf actions))"
    using consistent_run [of cfg mc pf actions] by (simp add: consistent_def)
  have b: "toolCount (destroy cfg mc st) = 0 \<and> registeredTools (destroy cfg mc st) = []"
    by (simp add: destroy_def Let_def)
  have c: "(toolCount (registerWebMCPTool cfg mc t st),
            length (registeredTools (registerWebMCPTool cfg mc t st)))
           = (if stores cfg t st then (Suc (toolCount st), Suc (length (registeredTools st)))
              else (toolCount st, length (registeredTools st)))"
    using register_stored [of cfg t st mc] register_dropped [of cfg t st mc] by simp
  from a b c show ?thesis by simp
qed

text \<open>C10, witness: a run with a duplicate, a registration at capacity and a \<open>destroy\<close>.\<close>

theorem counter_equals_registry_size_witness:
  "toolCount (run (configMax 1) None noParse [Register (buttonTool ''a'' 1), Register (buttonTool ''a'' 2), Register (buttonTool ''b'' 3), Destroy, Register (buttonTool ''c'' 4)]) = 1
   \<and> length (registeredTools (run (configMax 1) None noParse [Register (buttonTool ''a'' 1), Register (buttonTool ''a'' 2), Register (buttonTool ''b'' 3), Destroy, Register (buttonTool ''c'' 4)])) = 1"
proof -
  let ?r = "run (configMax 1) None noParse [Register (buttonTool ''a'' 1), Register (buttonTool ''a'' 2), Register (buttonTool ''b'' 3), Destroy, Register (buttonTool ''c'' 4)]"
  have "toolCount ?r = 1" by code_simp
  then show ?thesis
    using counter_equals_registry_size [of "configMax 1" None noParse "[Register (buttonTool ''a'' 1), Register (buttonTool ''a'' 2), Register (buttonTool ''b'' 3), Destroy, Register (buttonTool ''c'' 4)]"]
    by simp
qed

text \<open>
  Claim C2. With a positive \<open>maxTools\<close> the registry never holds more than \<open>maxTools\<close>
  descriptors, whatever registrations, scan passes and \<open>destroy\<close> calls came before; and a
  registration attempted at capacity does nothing but call \<open>log\<close> with the diagnostic, so the
  registry stays as it was.
\<close>

theorem registry_never_exceeds_maxTools:
  assumes "0 < cfg_maxTools cfg"
  shows "int (length (registeredTools (run cfg mc pf actions))) \<le> cfg_maxTools cfg
         \<and> (cfg_maxTools cfg \<le> int (length (registeredTools (run cfg mc pf actions))) \<longrightarrow>
              registerWebMCPTool cfg mc t (run cfg mc pf actions)
                = log cfg (LogMaxTools (cfg_maxTools cfg) (name t)) (run cfg mc pf actions)
              \<and> registeredTools (registerWebMCPTool cfg mc t (run cfg mc pf actions))
                = registeredTools (run cfg mc pf actions))"
proof -
  let ?st = "run cfg mc pf actions"
  have c: "consistent cfg ?st" by (rule consistent_run)
  then have le: "int (length (registeredTools ?st)) \<le> cfg_maxTools cfg"
    using assms by (simp add: consistent_def)
  have cnt: "toolCount ?st = length (registeredTools ?st)"
    using c by (simp add: consistent_def)
  have "registerWebMCPTool cfg mc t ?st = log cfg (LogMaxTools (cfg_maxTools cfg) (name t)) ?st"
    if "cfg_maxTools cfg \<le> int (length (registeredTools ?st))"
    using that cnt by (simp add: registerWebMCPTool_def)
  then show ?thesis using le by simp
qed

text \<open>C2, witness: capacity one, two registrations, then a third at capacity.\<close>

theorem registry_never_exceeds_maxTools_witness:
  "0 < cfg_maxTools (configMax 1)
   \<and> length (registeredTools (run (configMax 1) None noParse [Register (buttonTool ''a'' 1), Register (buttonTool ''b'' 2)])) = 1
   \<and> registerWebMCPTool (configMax 1) None (buttonTool ''c'' 3)
         (run (configMax 1) None noParse [Register (buttonTool ''a'' 1), Register (buttonTool ''b'' 2)])
       = log (configMax 1) (LogMaxTools 1 ''c'')
           (run (configMax 1) None noParse [Register (buttonTool ''a'' 1), Register (buttonTool ''b'' 2)])"
proof -
  let ?acts = "[Register (buttonTool ''a'' 1), Register (buttonTool ''b'' 2)]"
  have h: "0 < cfg_maxTools (configMax 1)" by (simp add: configMax_def)
  have n: "length (registeredTools (run (configMax 1) None noParse ?acts)) = 1" by code_simp
  have m: "cfg_maxTools (configMax 1) = 1" by (simp add: configMax_def)
  have k: "name (buttonTool ''c'' 3) = ''c''" by (simp add: buttonTool_def)
  show ?thesis
    using registry_never_exceeds_maxTools [OF h, of None noParse ?acts "buttonTool ''c'' 3"] h n m k
    by simp
qed

text \<open>
  Claim C5. Two registration attempts with the same name, the name not yet stored and the
  capacity not reached: the first descriptor is stored, once and unchanged, the callback
  \<open>onToolRegistered\<close> (when configured) is called once, with the first descriptor, and the
  second attempt changes nothing at all, not even the console, as long as the capacity is
  still not reached after the first.
\<close>

theorem first_registration_wins:
  assumes same: "name t2 = name t1"
    and fresh: "\<not> has (registeredTools st) (name t1)"
    and room: "int (toolCount st) < cfg_maxTools cfg"
  shows "registeredTools (registerWebMCPTool cfg mc t2 (registerWebMCPTool cfg mc t1 st))
           = registeredTools st @ [(name t1, t1)]
         \<and> toolCount (registerWebMCPTool cfg mc t2 (registerWebMCPTool cfg mc t1 st)) = Suc (toolCount st)
         \<and> callbackCalls (registerWebMCPTool cfg mc t2 (registerWebMCPTool cfg mc t1 st))
           = callbackCalls st @ (if cfg_onToolRegistered cfg then [t1] else [])
         \<and> (int (toolCount st) + 1 < cfg_maxTools cfg \<longrightarrow>
              registerWebMCPTool cfg mc t2 (registerWebMCPTool cfg mc t1 st)
                = registerWebMCPTool cfg mc t1 st)"
proof -
  let ?s1 = "registerWebMCPTool cfg mc t1 st"
  have st: "stores cfg t1 st" using fresh room by (simp add: stores_def)
  note s1 = register_stored [OF st, of mc]
  have "has (registeredTools ?s1) (name t2)" using s1 same by (simp add: has_def)
  then have nst: "\<not> stores cfg t2 ?s1" by (simp add: stores_def)
  note s2 = register_dropped [OF nst, of mc]
  have silent: "registerWebMCPTool cfg mc t2 ?s1 = ?s1" if "int (toolCount st) + 1 < cfg_maxTools cfg"
    using that s1 \<open>has (registeredTools ?s1) (name t2)\<close> by (simp add: registerWebMCPTool_def [of cfg mc t2])
  show ?thesis using s1 s2 silent by simp
qed

text \<open>C5, witness: two buttons labelled alike, registered into the empty registry.\<close>

theorem first_registration_wins_witness:
  "registeredTools (registerWebMCPTool (configMax 5) None (buttonTool ''save'' 2)
       (registerWebMCPTool (configMax 5) None (buttonTool ''save'' 1) initialState))
     = [(''save'', buttonTool ''save'' 1)]
   \<and> callbackCalls (registerWebMCPTool (configMax 5) None (buttonTool ''save'' 2)
       (registerWebMCPTool (configMax 5) None (buttonTool ''save'' 1) initialState))
     = [buttonTool ''save'' 1]
   \<and> registerWebMCPTool (configMax 5) None (buttonTool ''save'' 2)
       (registerWebMCPTool (configMax 5) None (buttonTool ''save'' 1) initialState)
     = registerWebMCPTool (configMax 5) None (buttonTool ''save'' 1) initialState"
proof -
  have same: "name (buttonTool ''save'' 2) = name (buttonTool ''save'' 1)"
    by (simp add: buttonTool_def)
  have fresh: "\<not> has (registeredTools (initialState :: int state)) (name (buttonTool ''save'' 1))"
    by (simp add: initialState_def has_def)
  have room: "int (toolCount (initialState :: int state)) < cfg_maxTools (configMax 5)"
    by (simp add: initialState_def configMax_def)
  have room2: "int (toolCount (initialState :: int state)) + 1 < cfg_maxTools (configMax 5)"
    by (simp add: initialState_def configMax_def)
  have cb: "cfg_onToolRegistered (configMax 5)" by (simp add: configMax_def)
  have nm: "name (buttonTool ''save'' 1) = ''save''" by (simp add: buttonTool_def)
  have i: "registeredTools (initialState :: int state) = []" "callbackCalls (initialState :: int state) = []"
    by (simp_all add: initialState_def)
  note T = first_registration_wins [OF same fresh room, of None]
  have a: "registeredTools (registerWebMCPTool (configMax 5) None (buttonTool ''save'' 2)
       (registerWebMCPTool (configMax 5) None (buttonTool ''save'' 1) initialState))
     = [(''save'', buttonTool ''save'' 1)]"
    using T [THEN conjunct1] nm i by simp
  have b: "callbackCalls (registerWebMCPTool (configMax 5) None (buttonTool ''save'' 2)
       (registerWebMCPTool (configMax 5) None (buttonTool ''save'' 1) initialState))
     = [buttonTool ''save'' 1]"
    using T [THEN conjunct2, THEN conjunct2, THEN conjunct1] cb i by simp
  have c: "registerWebMCPTool (configMax 5) None (buttonTool ''save'' 2)
       (registerWebMCPTool (configMax 5) None (buttonTool ''save'' 1) initialState)
     = registerWebMCPTool (configMax 5) None (buttonTool ''save'' 1) initialState"
    using T [THEN conjunct2, THEN conjunct2, THEN conjunct2] room2 by blast
  from a b c show ?thesis by blast
qed


subsection \<open>The name generator\<close>

text \<open>
  Claim C6 at a form whose identifier reduces to the empty slug. Without a prefix the
  generator returns the skip sentinel; with the prefix \<open>mysite\<close> the join of the prefix and
  the empty slug is \<open>mysite_\<close>, which is not empty, and that is the name returned.
\<close>

theorem prefix_alone_is_returned:
  "slugify (el_id punctuationForm) = []
   \<and> generateToolName punctuationForm [] ''form'' ''ab12'' = None
   \<and> generateToolName punctuationForm ''mysite'' ''form'' ''ab12'' = Some ''mysite_''"
  by code_simp

subsection \<open>The form schema scanner\<close>

lemma scanControl_foldl:
  "foldl (scanControl pf form) (obj, req) cs =
     (foldl (\<lambda>ob i. objectSet ob (fieldName i) (controlProp pf form i)) obj (filter scannable cs),
      req @ map fieldName (filter c_required (filter scannable cs)))"
proof (induction cs arbitrary: obj req)
  case Nil
  then show ?case by simp
next
  case (Cons c cs)
  show ?case
  proof (cases "scannable c")
    case True
    then have "scanControl pf form (obj, req) c =
        (objectSet obj (fieldName c) (controlProp pf form c),
         if c_required c then req @ [fieldName c] else req)"
      by (simp add: scanControl_def scannable_def)
    with True Cons.IH show ?thesis by simp
  next
    case False
    then have "scanControl pf form (obj, req) c = (obj, req)"
      by (auto simp: scanControl_def scannable_def)
    with False Cons.IH show ?thesis by simp
  qed
qed

lemma objectSets_keys:
  "fst ` set (fst (foldl (\<lambda>ob i. objectSet ob (f i) (g i)) obj xs))
     = fst ` set (fst obj) \<union> (f ` set xs - {''__proto__''})"
proof (induction xs arbitrary: obj)
  case Nil
  then show ?case by simp
next
  case (Cons x xs)
  show ?case
    unfolding foldl_Cons Cons.IH by (auto simp: objectSet_def dom_update)
qed

lemma objectSets_lookup:
  "k \<noteq> ''__proto__'' \<Longrightarrow>
   map_of (fst (foldl (\<lambda>ob i. objectSet ob (f i) (g i)) obj xs)) k =
     (if filter (\<lambda>i. f i = k) xs = [] then map_of (fst obj) k
      else Some (g (last (filter (\<lambda>i. f i = k) xs))))"
proof (induction xs arbitrary: obj)
  case Nil
  then show ?case by simp
next
  case (Cons x xs)
  show ?case
    unfolding foldl_Cons Cons.IH [OF Cons.prems]
    using Cons.prems by (auto simp: objectSet_def update_conv')
qed

lemma scanForm_properties:
  "s_properties (scanForm pf form) =
     fst (foldl (\<lambda>ob i. objectSet ob (fieldName i) (controlProp pf form i)) ([], None)
            (filter scannable (el_controls form)))"
  by (simp add: scanForm_def Let_def scanControl_foldl)

lemma scanForm_required:
  "s_required (scanForm pf form) =
     (if map fieldName (filter c_required (filter scannable (el_controls form))) = [] then None
      else Some (map fieldName (filter c_required (filter scannable (el_controls form)))))"
  by (simp add: scanForm_def Let_def scanControl_foldl)

lemma controlProp_type:
  "(p_type (controlProp pf form i) = ''number'') = (c_type i = ''number'' \<or> c_type i = ''range'')"
  by (simp add: controlProp_def typeProp_def Let_def split: option.splits)

lemma controlProp_minimum:
  "p_minimum (controlProp pf form i) =
     (if (c_type i = ''number'' \<or> c_type i = ''range'') \<and> truthy (c_min i)
      then Some (pf (c_min i)) else None)"
  by (simp add: controlProp_def typeProp_def Let_def split: option.splits)

lemma controlProp_maximum:
  "p_maximum (controlProp pf form i) =
     (if (c_type i = ''number'' \<or> c_type i = ''range'') \<and> truthy (c_max i)
      then Some (pf (c_max i)) else None)"
  by (simp add: controlProp_def typeProp_def Let_def split: option.splits)

lemma controlProp_enum:
  "p_enum (controlProp pf form i) =
     (if c_tagName i = ''SELECT'' \<and> 0 < length (filter truthy (c_options i))
         \<and> length (filter truthy (c_options i)) \<le> 20
      then Some (filter truthy (c_options i)) else None)"
  by (simp add: controlProp_def typeProp_def Let_def split: option.splits)

text \<open>
  What holds of every form: the own keys of \<open>properties\<close> are the field names, other than
  \<^verbatim>\<open>__proto__\<close>, of the controls that are not skipped, each with the property computed from the
  last control of that name; \<open>required\<close> lists the names of the scanned controls marked
  required.
\<close>

lemma scanForm_keys:
  "fst ` set (s_properties (scanForm pf form))
     = fieldName ` {i \<in> set (el_controls form). scannable i} - {''__proto__''}"
  by (simp add: scanForm_properties objectSets_keys)

lemma scanForm_lookup:
  assumes "i \<in> set (el_controls form)" "scannable i" "fieldName i \<noteq> ''__proto__''"
  shows "map_of (s_properties (scanForm pf form)) (fieldName i)
          = Some (controlProp pf form
                    (last (filter (\<lambda>j. fieldName j = fieldName i) (filter scannable (el_controls form)))))"
proof -
  have "i \<in> set (filter (\<lambda>j. fieldName j = fieldName i) (filter scannable (el_controls form)))"
    using assms by simp
  then have "filter (\<lambda>j. fieldName j = fieldName i) (filter scannable (el_controls form)) \<noteq> []"
    by (metis empty_iff empty_set)
  then show ?thesis using assms(3) by (simp add: scanForm_properties objectSets_lookup)
qed

lemma scanForm_required_subset:
  assumes "\<forall>i \<in> set (el_controls form). scannable i \<longrightarrow> fieldName i \<noteq> ''__proto__''"
    and "s_required (scanForm pf form) = Some r"
  shows "set r \<subseteq> fst ` set (s_properties (scanForm pf form))"
proof -
  from assms(2) have "r = map fieldName (filter c_required (filter scannable (el_controls form)))"
    by (simp add: scanForm_required split: if_splits)
  then show ?thesis unfolding scanForm_keys using assms(1) by auto
qed

text \<open>The schema of the README's search form.\<close>

lemma scanForm_searchForm:
  "scanForm decimal searchForm =
     \<lparr>s_type = ''object'',
      s_properties =
        [(''query'', \<lparr>p_type = ''string'', p_description = Some ''Search products...'',
            p_enum = None, p_pattern = None, p_format = None, p_minimum = None,
            p_maximum = None\<rparr>),
         (''category'', \<lparr>p_type = ''string'', p_description = None,
            p_enum = Some [''shoes'', ''shirts'', ''pants''], p_pattern = None, p_format = None,
            p_minimum = None, p_maximum = None\<rparr>),
         (''maxPrice'', \<lparr>p_type = ''number'', p_description = None, p_enum = None,
            p_pattern = None, p_format = None, p_minimum = Some 0, p_maximum = Some 1000\<rparr>)],
      s_propertiesProto = None,
      s_required = Some [''query'']\<rparr>"
  by code_simp

text \<open>
  Claim C8 at a form with a required control named \<^verbatim>\<open>__proto__\<close>. The control has a name and
  its kind is neither hidden nor submit, so the scanner does not skip it; the store
  \<^verbatim>\<open>properties[fieldName] = prop\<close> replaces the prototype of \<open>properties\<close> and creates no key, and
  the name is pushed to \<open>required\<close> all the same. The keys of \<open>properties\<close> are then \<open>email\<close>
  alone, and \<open>required\<close> holds a name that is not among them.
\<close>

theorem proto_named_control_required_without_key:
  "scannable (el_controls protoForm ! 0)
   \<and> c_required (el_controls protoForm ! 0)
   \<and> map fst (s_properties (scanForm noParse protoForm)) = [''email'']
   \<and> s_required (scanForm noParse protoForm) = Some [''__proto__'']"
  by code_simp

subsection \<open>The form handler\<close>
















text \<open>
  A field name found only among the inherited properties: for the empty object literal the
  test \<^verbatim>\<open>fieldName in input\<close> holds of a control named \<open>constructor\<close>, which is written and gets
  its two events, while \<open>fields\<close> is empty. The statement above says nothing of such a control.
\<close>

lemma inherited_key_is_written:
  "createFormHandler (blankElement\<lparr>el_controls := [blankControl\<lparr>c_name := ''constructor''\<rparr>]\<rparr>)
     (plainObject []) =
     (blankElement\<lparr>el_controls := [blankControl\<lparr>c_name := ''constructor'', c_value := JObject\<rparr>]\<rparr>,
      [DispatchEvent (OnControl 0) ''input'' True False,
       DispatchEvent (OnControl 0) ''change'' True False,
       DispatchEvent OnElement ''submit'' True True],
      \<lparr>r_success = True, r_message = ''Form submitted with 0 fields'', r_fields = Some [],
       r_url = None, r_text = None\<rparr>)"
  by code_simp

subsection \<open>The link handler\<close>

text \<open>The test of the code, the literal prefix \<^verbatim>\<open>javascript:\<close>, finds addresses of the script
  scheme only.\<close>

lemma literal_prefix_is_script:
  assumes "startsWith href ''javascript:''"
  shows "isScriptURL href"
proof -
  from assms have "take (length ''javascript:'') href = ''javascript:''"
    unfolding startsWith_def .
  then obtain r where "href = ''javascript:'' @ r" by (metis append_take_drop_id)
  then show ?thesis
    by (simp add: isScriptURL_def startsWith_def asciiLower_def code_def)
qed

text \<open>
  Claim C7, as amended. When the \<open>href\<close> attribute is non-empty, does not use the
  script-execution pseudo-scheme and resolves against the document location, the handler
  activates nothing and returns \<open>success = True\<close> with the resolved URL, the trimmed text and
  the message; when the resolution throws, the handler activates nothing and its promise
  is rejected. When the \<open>href\<close> begins with \<^verbatim>\<open>javascript:\<close> in exactly this spelling, and also
  when it is absent or empty, the handler calls \<^verbatim>\<open>click()\<close> and returns the generic success.
  Nothing is said of an \<open>href\<close> that uses the script scheme in another spelling.
\<close>

theorem link_handler_cases:
  "(getAttribute link ''href'' = Some href \<and> href \<noteq> [] \<and> \<not> isScriptURL href
      \<and> resolveURL href location = Some u \<longrightarrow>
      createLinkHandler resolveURL location link =
        ([], Inr \<lparr>r_success = True, r_message = ''Link target: '' @ href, r_fields = None,
                  r_url = Some u, r_text = Some (slice0 50 (trim (el_textContent link)))\<rparr>))
   \<and> (getAttribute link ''href'' = Some href \<and> href \<noteq> [] \<and> \<not> isScriptURL href
      \<and> resolveURL href location = None \<longrightarrow>
      createLinkHandler resolveURL location link = ([], Inl TypeError))
   \<and> (getAttribute link ''href'' = Some href \<and> startsWith href ''javascript:'' \<longrightarrow>
      createLinkHandler resolveURL location link = linkActivated)
   \<and> (getAttribute link ''href'' = None \<or> getAttribute link ''href'' = Some [] \<longrightarrow>
      createLinkHandler resolveURL location link = linkActivated)"
  using literal_prefix_is_script [of href]
  by (auto simp: createLinkHandler_def linkActivated_def truthyAttr_def truthy_def Let_def)

text \<open>C7, witness: the link to \<^verbatim>\<open>/cart\<close> of the specification's scenario, a link whose address
  does not resolve, a \<^verbatim>\<open>javascript:\<close> link and an anchor without \<open>href\<close>.\<close>

theorem link_handler_cases_witness:
  "createLinkHandler originResolve ''https://shop.example/products'' cartLink =
     ([], Inr \<lparr>r_success = True, r_message = ''Link target: /cart'', r_fields = None,
               r_url = Some ''https://shop.example/cart'', r_text = Some ''Cart''\<rparr>)
   \<and> createLinkHandler originResolve ''https://shop.example/products'' brokenLink = ([], Inl TypeError)
   \<and> createLinkHandler originResolve ''https://shop.example/products'' scriptLink = linkActivated
   \<and> createLinkHandler originResolve ''https://shop.example/products'' anchorWithoutHref = linkActivated"
proof -
  let ?loc = "''https://shop.example/products''"
  have h1: "getAttribute cartLink ''href'' = Some ''/cart'' \<and> ''/cart'' \<noteq> []
      \<and> \<not> isScriptURL ''/cart''
      \<and> originResolve ''/cart'' ?loc = Some ''https://shop.example/cart''"
    by code_simp
  have t: "slice0 50 (trim (el_textContent cartLink)) = ''Cart''" by code_simp
  have a: "createLinkHandler originResolve ?loc cartLink =
     ([], Inr \<lparr>r_success = True, r_message = ''Link target: /cart'', r_fields = None,
               r_url = Some ''https://shop.example/cart'', r_text = Some ''Cart''\<rparr>)"
    using link_handler_cases [of cartLink "''/cart''" originResolve ?loc "''https://shop.example/cart''",
        THEN conjunct1] h1 t
    by simp
  have h2: "getAttribute brokenLink ''href'' = Some ''http://'' \<and> ''http://'' \<noteq> []
      \<and> \<not> isScriptURL ''http://'' \<and> originResolve ''http://'' ?loc = None"
    by code_simp
  have b: "createLinkHandler originResolve ?loc brokenLink = ([], Inl TypeError)"
    using link_handler_cases [of brokenLink "''http://''" originResolve ?loc u,
        THEN conjunct2, THEN conjunct1] h2
    by blast
  have h3: "getAttribute scriptLink ''href'' = Some ''javascript:openMenu()''
      \<and> startsWith ''javascript:openMenu()'' ''javascript:''"
    by code_simp
  have c: "createLinkHandler originResolve ?loc scriptLink = linkActivated"
    using link_handler_cases [of scriptLink "''javascript:openMenu()''" originResolve ?loc u,
        THEN conjunct2, THEN conjunct2, THEN conjunct1] h3
    by blast
  have h4: "getAttribute anchorWithoutHref ''href'' = None" by code_simp
  have d: "createLinkHandler originResolve ?loc anchorWithoutHref = linkActivated"
    using link_handler_cases [of anchorWithoutHref href originResolve ?loc u,
        THEN conjunct2, THEN conjunct2, THEN conjunct2] h4
    by blast
  from a b c d show ?thesis by (intro conjI)
qed

text \<open>C7 as stated fails: an \<open>href\<close> that is present, empty, and not of the script scheme sends
  the handler down the activation path.\<close>

theorem link_handler_empty_href_counterexample:
  "getAttribute emptyHrefLink ''href'' = Some []
   \<and> \<not> isScriptURL []
   \<and> createLinkHandler originResolve ''https://shop.example/products'' emptyHrefLink =
       ([Click], Inr \<lparr>r_success = True, r_message = ''Link activated'',
                           r_fields = None, r_url = None, r_text = None\<rparr>)"
  by code_simp

text \<open>
  Where the code departs from the claim without a design behind it: an \<open>href\<close> of the script
  scheme spelled \<^verbatim>\<open>JavaScript:\<close> fails the literal test, so the handler does not activate the
  link and hands the address to the URL constructor.
\<close>

lemma mixed_case_script_href_not_activated:
  "isScriptURL ''JavaScript:openMenu()''
   \<and> getAttribute mixedCaseScriptLink ''href'' = Some ''JavaScript:openMenu()''
   \<and> fst (createLinkHandler (\<lambda>href base. Some href) ''https://shop.example/products''
            mixedCaseScriptLink) = []"
  by code_simp

subsection \<open>The scan phases\<close>

text \<open>
  Claim C3 at a form without a scannable field. The form phase alone registers nothing for
  it; with the selector \<^verbatim>\<open>form.newsletter\<close> among the extra selectors, the fourth phase,
  which has no check of the schema, registers a tool whose \<open>properties\<close> are empty.
\<close>

theorem include_phase_registers_empty_form:
  "s_properties (scanForm noParse newsletterForm) = []
   \<and> registeredTools (scan DEFAULT_CONFIG None noParse fixedSuffix newsletterPage initialState) = []
   \<and> map (\<lambda>(k, t). (k, handler t, s_properties (inputSchema t)))
         (registeredTools (scan includeNewsletter None noParse fixedSuffix newsletterPage initialState))
       = [(''newsletter'', FormHandler 2, [])]"
  by code_simp

text \<open>
  Claim C9 at an element found by an extra selector. The button phase gives its descriptor
  an \<open>annotations\<close> object; the fourth phase builds the descriptor without one, and \<open>getTools\<close>
  exports it with \<open>annotations\<close> undefined.
\<close>

theorem include_phase_omits_annotations:
  "map (\<lambda>x. (x_name x, x_annotations x))
       (getTools (scan includeActions None noParse fixedSuffix actionPage initialState))
     = [(''checkout'', Some \<lparr>readOnlyHint = Some False, destructiveHint = None\<rparr>),
        (''add_to_cart'', None)]"
  by code_simp


end
